theory Spec2Isabelle
  imports Main "HOL-Library.Char_ord" "HOL-Library.List_Lexorder"
begin

section \<open>Python values used by rang.py\<close>

text \<open>
  Exceptions are values. Only \<open>IsADirectoryError\<close> is told apart by the source (line 85);
  every other failure of the operating system is an \<open>OSError\<close>. The string is what
  \<open>str(e)\<close> gives.
\<close>

datatype exn =
    IndexError
  | UnicodeDecodeError
  | IsADirectoryError string
  | OSError string

fun str_exn :: "exn \<Rightarrow> string" where
  "str_exn IndexError = ''list index out of range''"
| "str_exn UnicodeDecodeError = ''invalid start byte''"
| "str_exn (IsADirectoryError m) = m"
| "str_exn (OSError m) = m"

text \<open>\<open>xs[i]\<close>: a negative index counts from the end, an index out of range raises.\<close>

definition py_index :: "'a list \<Rightarrow> int \<Rightarrow> exn + 'a" where
  "py_index xs i =
     (if 0 \<le> i \<and> i < int (length xs) then Inr (xs ! nat i)
      else if i < 0 \<and> - int (length xs) \<le> i then Inr (xs ! nat (int (length xs) + i))
      else Inl IndexError)"

text \<open>
  \<open>s[:k]\<close>: never raises. A stop beyond the end is cut to the length; a negative stop
  counts from the end.
\<close>

definition py_slice_to :: "'a list \<Rightarrow> int \<Rightarrow> 'a list" where
  "py_slice_to s k =
     (if k < 0 then take (nat (int (length s) + k)) s else take (nat k) s)"

text \<open>\<open>s.split(sep)\<close> for a separator of one character: always at least one piece.\<close>

fun split_on :: "char \<Rightarrow> string \<Rightarrow> string list" where
  "split_on c [] = [[]]"
| "split_on c (x # xs) =
     (if x = c then [] # split_on c xs
      else (case split_on c xs of
              [] \<Rightarrow> [[x]]
            | y # ys \<Rightarrow> (x # y) # ys))"

text \<open>\<open>sep.join(xs)\<close>.\<close>

fun join :: "string \<Rightarrow> string list \<Rightarrow> string" where
  "join sep [] = []"
| "join sep [x] = x"
| "join sep (x # y # ys) = x @ sep @ join sep (y # ys)"

text \<open>\<open>s.replace("\t", "    ")\<close>.\<close>

definition expand_tabs :: "string \<Rightarrow> string" where
  "expand_tabs s = concat (map (\<lambda>c. if c = CHR 0x09 then ''    '' else [c]) s)"

section \<open>pathlib paths\<close>

text \<open>
  A pure POSIX path: its anchor (\<open>''/''\<close>, \<open>''//''\<close>, or empty for a relative path) and
  its parts. Parsing a string drops empty components and \<open>.\<close>; it keeps \<open>..\<close>.
\<close>

datatype path = Path (anchor: string) (parts: "string list")

definition parse_anchor :: "string \<Rightarrow> string" where
  "parse_anchor s =
     (if take 1 s \<noteq> ''/'' then ''''
      else if take 2 s = ''//'' \<and> take 3 s \<noteq> ''///'' then ''//''
      else ''/'')"

definition parse_parts :: "string \<Rightarrow> string list" where
  "parse_parts s = filter (\<lambda>p. p \<noteq> '''' \<and> p \<noteq> ''.'') (split_on CHR ''/'' s)"

text \<open>\<open>p / s\<close> for a string \<open>s\<close>: an absolute \<open>s\<close> replaces \<open>p\<close>.\<close>

definition joinpath :: "path \<Rightarrow> string \<Rightarrow> path" where
  "joinpath p s =
     (if parse_anchor s \<noteq> '''' then Path (parse_anchor s) (parse_parts s)
      else Path (anchor p) (parts p @ parse_parts s))"

text \<open>\<open>p / q\<close> for a path object \<open>q\<close>.\<close>

definition joinpath_path :: "path \<Rightarrow> path \<Rightarrow> path" where
  "joinpath_path p q =
     (if anchor q \<noteq> '''' then q else Path (anchor p) (parts p @ parts q))"

text \<open>\<open>p.parent\<close>: the parent of an anchor, or of the empty path, is the path itself.\<close>

definition parent :: "path \<Rightarrow> path" where
  "parent p = Path (anchor p) (butlast (parts p))"

text \<open>\<open>p.name\<close>: the last part, empty when there is none.\<close>

definition name :: "path \<Rightarrow> string" where
  "name p = (if parts p = [] then '''' else last (parts p))"

text \<open>\<open>str(p)\<close>.\<close>

definition str_path :: "path \<Rightarrow> string" where
  "str_path p =
     (if anchor p = '''' \<and> parts p = [] then ''.''
      else anchor p @ join ''/'' (parts p))"

text \<open>
  The child that \<open>iterdir\<close> yields for a name of the directory listing: the name is
  appended as one part, without parsing.
\<close>

definition child :: "path \<Rightarrow> string \<Rightarrow> path" where
  "child p n = Path (anchor p) (parts p @ [n])"

text \<open>A name a directory listing can hold: one component, and neither empty nor \<open>.\<close>.\<close>

definition valid_name :: "string \<Rightarrow> bool" where
  "valid_name n \<longleftrightarrow> n \<noteq> '''' \<and> n \<noteq> ''.'' \<and> CHR ''/'' \<notin> set n"

section \<open>The terminal\<close>

text \<open>
  The curses screen is a collaborator: what the program asks of it is recorded as a list of
  draw commands, in the order of the calls. The key codes of \<open>getch\<close> are the named
  curses constants the source uses, the code of a character (\<open>ord\<close>), or any other code;
  the named constants are taken to be distinct codes outside the character range.
  \<open>KEY_A2\<close>, \<open>KEY_B1\<close>, \<open>KEY_B3\<close> and \<open>KEY_C2\<close> are the keypad arrows of the curses
  library the source is written for; they are taken as given.
\<close>

datatype draw =
    Clear
  | Vline int int string int
  | Hline int int string int
  | Addstr int int string
  | Attrset nat bool
  | Echo
  | Noecho
  | Getstr int int int

datatype key =
    KEY_UP | KEY_DOWN | KEY_LEFT | KEY_RIGHT
  | KEY_A2 | KEY_B1 | KEY_B3 | KEY_C2
  | KEY_F7
  | Ord char
  | KEY_OTHER int

text \<open>
  What the terminal delivers in one cycle of the main loop: the size \<open>getmaxyx\<close> reports
  (height, width), the key \<open>getch\<close> returns, and the outcome of
  \<open>getstr(...).decode("utf-8")\<close> should the cycle prompt for a line.
\<close>

record event =
  ev_size :: "int \<times> int"
  ev_key :: key
  ev_line :: "exn + string"

section \<open>The file system\<close>

text \<open>
  The calls of \<open>os\<close> and \<open>pathlib\<close> that reach the file system, over a state \<open>'w\<close> of the
  world outside the program. Each may fail; \<open>is_dir\<close> answers \<open>False\<close> instead.
\<close>

record 'w os_iface =
  os_listdir :: "'w \<Rightarrow> path \<Rightarrow> exn + string list"
  os_is_dir :: "'w \<Rightarrow> path \<Rightarrow> bool"
  os_open_read :: "'w \<Rightarrow> path \<Rightarrow> exn + string"
  os_remove :: "'w \<Rightarrow> path \<Rightarrow> exn + 'w"
  os_rename :: "'w \<Rightarrow> path \<Rightarrow> path \<Rightarrow> exn + 'w"
  os_mkdir :: "'w \<Rightarrow> path \<Rightarrow> exn + 'w"

text \<open>\<open>p.iterdir()\<close>: one child path for each name of the listing.\<close>

definition iterdir :: "'w os_iface \<Rightarrow> 'w \<Rightarrow> path \<Rightarrow> exn + path list" where
  "iterdir os w p =
     (case os_listdir os w p of
        Inl e \<Rightarrow> Inl e
      | Inr names \<Rightarrow> Inr (map (child p) names))"

section \<open>class App\<close>

text \<open>
  The attributes of \<open>self\<close>, with the screen as the commands sent to it so far, and the
  world the file-system calls act on.
\<close>

record 'w app =
  screen :: "draw list"
  cursor :: int
  current_dir :: path
  screen_height :: int
  screen_width :: int
  col_width :: int
  world :: "'w"

text \<open>
  \<open>__init__\<close> (lines 15--19), given the working directory of the process. The geometry
  attributes do not exist before the first \<open>refresh_screen\<close>; they start at 0 here and
  are never read before that call.
\<close>

definition App_init :: "path \<Rightarrow> 'w \<Rightarrow> 'w app" where
  "App_init cwd w =
     \<lparr>screen = [], cursor = 0, current_dir = joinpath_path cwd (Path [] []),
      screen_height = 0, screen_width = 0, col_width = 0, world = w\<rparr>"

definition addstr :: "int \<Rightarrow> int \<Rightarrow> string \<Rightarrow> 'w app \<Rightarrow> 'w app" where
  "addstr y x s st = st\<lparr>screen := screen st @ [Addstr y x s]\<rparr>"

definition attrset :: "nat \<Rightarrow> bool \<Rightarrow> 'w app \<Rightarrow> 'w app" where
  "attrset pair bold st = st\<lparr>screen := screen st @ [Attrset pair bold]\<rparr>"

text \<open>\<open>_draw_border\<close> (lines 36--38).\<close>

definition draw_border :: "'w app \<Rightarrow> 'w app" where
  "draw_border st =
     st\<lparr>screen := screen st @
        [Vline 2 (col_width st) ''|'' (screen_height st),
         Hline 1 0 ''-'' (screen_width st)]\<rparr>"

text \<open>\<open>_draw_current_directory\<close> (lines 40--41).\<close>

definition draw_current_directory :: "'w app \<Rightarrow> 'w app" where
  "draw_current_directory st =
     addstr 0 0 (py_slice_to (str_path (current_dir st)) (col_width st)) st"

text \<open>\<open>refresh_screen\<close> (lines 29--34); \<open>//\<close> rounds down, as \<open>div\<close> on \<open>int\<close> does.\<close>

definition refresh_screen :: "int \<times> int \<Rightarrow> 'w app \<Rightarrow> 'w app" where
  "refresh_screen yx st =
     (let st1 = st\<lparr>screen := screen st @ [Clear]\<rparr>;
          st2 = st1\<lparr>screen_height := fst yx, screen_width := snd yx\<rparr>;
          st3 = st2\<lparr>col_width := screen_width st2 div 2\<rparr>
      in draw_current_directory (draw_border st3))"

text \<open>
  \<open>get_sorted_files\<close> (lines 57--67). The loop appends each child's name to one of the
  two lists; \<open>list.sort\<close> on strings is the stable sort by the lexicographic order.
\<close>

fun get_sorted_files_loop ::
  "'w os_iface \<Rightarrow> 'w \<Rightarrow> path \<Rightarrow> path list \<Rightarrow> string list \<times> string list
     \<Rightarrow> string list \<times> string list" where
  "get_sorted_files_loop os w cur [] (dirs, files) = (dirs, files)"
| "get_sorted_files_loop os w cur (x # xs) (dirs, files) =
     (if os_is_dir os w (joinpath_path cur x)
      then get_sorted_files_loop os w cur xs (dirs @ [name x], files)
      else get_sorted_files_loop os w cur xs (dirs, files @ [name x]))"

definition get_sorted_files :: "'w os_iface \<Rightarrow> 'w app \<Rightarrow> exn + string list" where
  "get_sorted_files os st =
     (case iterdir os (world st) (current_dir st) of
        Inl e \<Rightarrow> Inl e
      | Inr xs \<Rightarrow>
          (case get_sorted_files_loop os (world st) (current_dir st) xs ([], []) of
             (dirs, files) \<Rightarrow> Inr (sort dirs @ sort files)))"

text \<open>\<open>_draw_left\<close> (lines 99--111).\<close>

definition draw_left :: "string \<Rightarrow> int \<Rightarrow> bool \<Rightarrow> bool \<Rightarrow> 'w app \<Rightarrow> 'w app" where
  "draw_left text ypos is_selected is_dir st =
     (let st1 =
            (if is_selected \<and> is_dir then attrset 4 True st
             else if is_dir then attrset 3 True st
             else if is_selected then attrset 2 False st
             else attrset 1 False st);
          st2 =
            (if ypos + 2 < screen_height st1
             then addstr (ypos + 2) 0 (py_slice_to text (col_width st1 - 1)) st1
             else st1)
      in attrset 1 False st2)"

text \<open>\<open>_draw_right\<close> (lines 92--97).\<close>

definition draw_right :: "string \<Rightarrow> int \<Rightarrow> 'w app \<Rightarrow> 'w app" where
  "draw_right contents i st =
     (let contents1 = expand_tabs contents
      in if 0 \<le> i + 2 \<and> i + 2 < screen_height st
         then addstr (i + 2) (col_width st + 1)
                (py_slice_to contents1 (col_width st - 2)) st
         else st)"

text \<open>\<open>_draw_file_list\<close> (lines 69--72): the loop over \<open>enumerate(files)\<close>, from an index.\<close>

fun draw_file_list_from ::
  "'w os_iface \<Rightarrow> int \<Rightarrow> string list \<Rightarrow> 'w app \<Rightarrow> 'w app" where
  "draw_file_list_from os idx [] st = st"
| "draw_file_list_from os idx (filename # rest) st =
     draw_file_list_from os (idx + 1) rest
       (draw_left filename idx (idx = cursor st)
          (os_is_dir os (world st) (joinpath (current_dir st) filename)) st)"

definition draw_file_list :: "'w os_iface \<Rightarrow> string list \<Rightarrow> 'w app \<Rightarrow> 'w app" where
  "draw_file_list os files st = draw_file_list_from os 0 files st"

text \<open>
  \<open>_get_file_or_folder_contents\<close> (lines 81--90). A failure of \<open>os.listdir\<close> inside the
  handler of \<open>IsADirectoryError\<close> is not caught by the handler that follows it.
\<close>

definition get_file_or_folder_contents ::
  "'w os_iface \<Rightarrow> string \<Rightarrow> 'w app \<Rightarrow> exn + string list" where
  "get_file_or_folder_contents os item st =
     (case os_open_read os (world st) (joinpath (current_dir st) item) of
        Inr contents \<Rightarrow> Inr (split_on (CHR 0x0A) contents)
      | Inl (IsADirectoryError m) \<Rightarrow>
          (case os_listdir os (world st) (joinpath (current_dir st) item) of
             Inl e \<Rightarrow> Inl e
           | Inr names \<Rightarrow> Inr (split_on (CHR 0x0A) (join '', '' names)))
      | Inl e \<Rightarrow>
          Inr (split_on (CHR 0x0A)
                 (''Unable to open the file or directory: '' @ str_exn e)))"

text \<open>The loop of lines 78--79 over \<open>enumerate(contents)\<close>, from an index.\<close>

fun draw_contents_from :: "int \<Rightarrow> string list \<Rightarrow> 'w app \<Rightarrow> 'w app" where
  "draw_contents_from i [] st = st"
| "draw_contents_from i (line # rest) st =
     draw_contents_from (i + 1) rest (draw_right line i st)"

text \<open>
  \<open>_show_selected_file_or_folder_contents\<close> (lines 74--79): \<open>files[self.cursor]\<close> is not
  inside any \<open>try\<close>.
\<close>

definition show_selected_file_or_folder_contents ::
  "'w os_iface \<Rightarrow> string list \<Rightarrow> 'w app \<Rightarrow> exn + 'w app" where
  "show_selected_file_or_folder_contents os files st =
     (case py_index files (cursor st) of
        Inl e \<Rightarrow> Inl e
      | Inr item \<Rightarrow>
          (case get_file_or_folder_contents os item st of
             Inl e \<Rightarrow> Inl e
           | Inr contents \<Rightarrow> Inr (draw_contents_from 0 contents st)))"

text \<open>
  \<open>_ask_user_input\<close> (lines 164--171), given the outcome of reading and decoding the
  line. It is called outside the \<open>try\<close> blocks, so its failure leaves the program.
\<close>

definition ask_user_input ::
  "string \<Rightarrow> exn + string \<Rightarrow> 'w app \<Rightarrow> exn + (string \<times> 'w app)" where
  "ask_user_input prompt line st =
     (let st1 = addstr (screen_height st - 1) 0 prompt st;
          st2 = st1\<lparr>screen := screen st1 @
                  [Echo, Getstr (screen_height st - 1) (int (length prompt)) 20]\<rparr>
      in case line of
           Inl e \<Rightarrow> Inl e
         | Inr user_input \<Rightarrow> Inr (user_input, st2\<lparr>screen := screen st2 @ [Noecho]\<rparr>))"

text \<open>\<open>_try_enter_directory\<close> (lines 133--140): every exception is swallowed.\<close>

definition try_enter_directory :: "'w os_iface \<Rightarrow> string list \<Rightarrow> 'w app \<Rightarrow> 'w app" where
  "try_enter_directory os files st =
     (case py_index files (cursor st) of
        Inl e \<Rightarrow> st
      | Inr f \<Rightarrow>
          (let new_path = joinpath (current_dir st) f
           in if os_is_dir os (world st) new_path
              then st\<lparr>current_dir := new_path, cursor := 0\<rparr>
              else st))"

text \<open>\<open>_try_remove_file\<close> (lines 142--146).\<close>

definition try_remove_file :: "'w os_iface \<Rightarrow> string list \<Rightarrow> 'w app \<Rightarrow> 'w app" where
  "try_remove_file os files st =
     (case py_index files (cursor st) of
        Inl e \<Rightarrow> st
      | Inr f \<Rightarrow>
          (case os_remove os (world st) (joinpath (current_dir st) f) of
             Inl e \<Rightarrow> st
           | Inr w \<Rightarrow> st\<lparr>world := w\<rparr>))"

text \<open>\<open>_try_rename_file\<close> (lines 148--155).\<close>

definition try_rename_file ::
  "'w os_iface \<Rightarrow> string list \<Rightarrow> exn + string \<Rightarrow> 'w app \<Rightarrow> exn + 'w app" where
  "try_rename_file os files line st =
     (case ask_user_input ''Enter new name: '' line st of
        Inl e \<Rightarrow> Inl e
      | Inr (new_name, st1) \<Rightarrow>
          (case py_index files (cursor st1) of
             Inl e \<Rightarrow> Inr st1
           | Inr f \<Rightarrow>
               (case os_rename os (world st1) (joinpath (current_dir st1) f)
                       (joinpath (current_dir st1) new_name) of
                  Inl e \<Rightarrow> Inr st1
                | Inr w \<Rightarrow> Inr (st1\<lparr>world := w\<rparr>))))"

text \<open>\<open>_try_create_directory\<close> (lines 157--162).\<close>

definition try_create_directory ::
  "'w os_iface \<Rightarrow> exn + string \<Rightarrow> 'w app \<Rightarrow> exn + 'w app" where
  "try_create_directory os line st =
     (case ask_user_input ''Enter directory name: '' line st of
        Inl e \<Rightarrow> Inl e
      | Inr (new_dir, st1) \<Rightarrow>
          (case os_mkdir os (world st1) (joinpath (current_dir st1) new_dir) of
             Inl e \<Rightarrow> Inr st1
           | Inr w \<Rightarrow> Inr (st1\<lparr>world := w\<rparr>)))"

text \<open>\<open>process_key_press\<close> (lines 113--131), branch by branch.\<close>

definition process_key_press ::
  "'w os_iface \<Rightarrow> string list \<Rightarrow> key \<Rightarrow> exn + string \<Rightarrow> 'w app \<Rightarrow> exn + 'w app" where
  "process_key_press os files k line st =
     (if k \<in> set [KEY_UP, Ord CHR ''k'', KEY_A2] \<and> cursor st > 0
      then Inr (st\<lparr>cursor := cursor st - 1\<rparr>)
      else if k \<in> set [KEY_DOWN, Ord CHR ''j'', KEY_C2]
              \<and> cursor st < int (length files) - 1
      then Inr (st\<lparr>cursor := cursor st + 1\<rparr>)
      else if k \<in> set [KEY_LEFT, KEY_B1, Ord CHR ''h'']
      then Inr (st\<lparr>current_dir := parent (current_dir st), cursor := 0\<rparr>)
      else if k \<in> set [KEY_RIGHT, KEY_B3, Ord CHR ''l'']
      then Inr (try_enter_directory os files st)
      else if k = Ord CHR ''x'' then Inr (try_remove_file os files st)
      else if k = Ord CHR ''a'' then try_rename_file os files line st
      else if k = KEY_F7 then try_create_directory os line st
      else Inr st)"

text \<open>
  \<open>run\<close> (lines 43--55) over the events the terminal delivers: one event for each cycle.
  The loop ends at the key \<open>q\<close> or when an exception leaves it; when the events are used
  up the program is waiting for a key, and the state reached is returned.
\<close>

fun run :: "'w os_iface \<Rightarrow> event list \<Rightarrow> 'w app \<Rightarrow> exn + 'w app" where
  "run os [] st = Inr st"
| "run os (e # es) st =
     (case get_sorted_files os (refresh_screen (ev_size e) st) of
        Inl x \<Rightarrow> Inl x
      | Inr files \<Rightarrow>
          (case show_selected_file_or_folder_contents os files
                  (draw_file_list os files (refresh_screen (ev_size e) st)) of
             Inl x \<Rightarrow> Inl x
           | Inr st1 \<Rightarrow>
               if ev_key e = Ord CHR ''q'' then Inr st1
               else (case process_key_press os files (ev_key e) (ev_line e) st1 of
                       Inl x \<Rightarrow> Inl x
                     | Inr st2 \<Rightarrow> run os es st2)))"

text \<open>
  \<open>process_key_press\<close> applied to a sequence of keys against one entry list, stopping
  at the first exception.
\<close>

fun process_key_presses ::
  "'w os_iface \<Rightarrow> string list \<Rightarrow> (key \<times> (exn + string)) list \<Rightarrow> 'w app
     \<Rightarrow> exn + 'w app" where
  "process_key_presses os files [] st = Inr st"
| "process_key_presses os files (kl # rest) st =
     (case process_key_press os files (fst kl) (snd kl) st of
        Inl e \<Rightarrow> Inl e
      | Inr st1 \<Rightarrow> process_key_presses os files rest st1)"

section \<open>A file system in memory\<close>

text \<open>
  A small file system to run the program on: an association list from absolute paths to
  nodes. \<open>remove\<close> refuses a directory, as \<open>os.remove\<close> is documented to; \<open>rename\<close> moves
  files only and refuses a destination that exists, as \<open>os.rename\<close> does on Windows
  (POSIX would replace an existing file).
\<close>

datatype node = File string | Dir

type_synonym memfs = "(path \<times> node) list"

definition mem_listdir :: "memfs \<Rightarrow> path \<Rightarrow> exn + string list" where
  "mem_listdir w p =
     (case map_of w p of
        None \<Rightarrow> Inl (OSError ''No such file or directory'')
      | Some (File c) \<Rightarrow> Inl (OSError ''Not a directory'')
      | Some Dir \<Rightarrow>
          Inr (map (\<lambda>qn. name (fst qn))
                 (filter (\<lambda>qn. parts (fst qn) \<noteq> [] \<and> parent (fst qn) = p) w)))"

definition mem_is_dir :: "memfs \<Rightarrow> path \<Rightarrow> bool" where
  "mem_is_dir w p \<longleftrightarrow> map_of w p = Some Dir"

definition mem_open_read :: "memfs \<Rightarrow> path \<Rightarrow> exn + string" where
  "mem_open_read w p =
     (case map_of w p of
        None \<Rightarrow> Inl (OSError ''No such file or directory'')
      | Some (File c) \<Rightarrow> Inr c
      | Some Dir \<Rightarrow> Inl (IsADirectoryError ''Is a directory''))"

definition mem_remove :: "memfs \<Rightarrow> path \<Rightarrow> exn + memfs" where
  "mem_remove w p =
     (case map_of w p of
        None \<Rightarrow> Inl (OSError ''No such file or directory'')
      | Some (File c) \<Rightarrow> Inr (filter (\<lambda>qn. fst qn \<noteq> p) w)
      | Some Dir \<Rightarrow> Inl (IsADirectoryError ''Is a directory''))"

definition mem_rename :: "memfs \<Rightarrow> path \<Rightarrow> path \<Rightarrow> exn + memfs" where
  "mem_rename w src dst =
     (case map_of w src of
        None \<Rightarrow> Inl (OSError ''No such file or directory'')
      | Some Dir \<Rightarrow> Inl (OSError ''Operation not supported'')
      | Some (File c) \<Rightarrow>
          (if map_of w dst \<noteq> None then Inl (OSError ''File exists'')
           else if parts dst \<noteq> [] \<and> map_of w (parent dst) = Some Dir
           then Inr (filter (\<lambda>qn. fst qn \<noteq> src \<and> fst qn \<noteq> dst) w @ [(dst, File c)])
           else Inl (OSError ''No such file or directory'')))"

definition mem_mkdir :: "memfs \<Rightarrow> path \<Rightarrow> exn + memfs" where
  "mem_mkdir w p =
     (if map_of w p \<noteq> None then Inl (OSError ''File exists'')
      else if parts p \<noteq> [] \<and> map_of w (parent p) = Some Dir then Inr (w @ [(p, Dir)])
      else Inl (OSError ''No such file or directory''))"

definition mem_os :: "memfs os_iface" where
  "mem_os =
     \<lparr>os_listdir = mem_listdir, os_is_dir = mem_is_dir, os_open_read = mem_open_read,
      os_remove = mem_remove, os_rename = mem_rename, os_mkdir = mem_mkdir\<rparr>"

section \<open>A file system with symbolic links\<close>











section \<open>Example inputs\<close>

text \<open>
  A world to run the program on: the root holds two directories and two files, the
  directory \<open>work\<close> holds the files \<open>a\<close>, \<open>b\<close> and \<open>c\<close>, and \<open>empty\<close> holds nothing.
\<close>

definition example_fs :: memfs where
  "example_fs =
     [(Path ''/'' [], Dir),
      (Path ''/'' [''notes.txt''], File (''one'' @ [CHR 0x09] @ ''two'')),
      (Path ''/'' [''work''], Dir),
      (Path ''/'' [''Makefile''], File ''all:''),
      (Path ''/'' [''empty''], Dir),
      (Path ''/'' [''work'', ''c''], File ''C''),
      (Path ''/'' [''work'', ''a''], File ''A''),
      (Path ''/'' [''work'', ''b''], File ''B'')]"

text \<open>A key pressed on a terminal of 24 rows and 80 columns, with no line typed.\<close>

definition key_event :: "key \<Rightarrow> event" where
  "key_event k = \<lparr>ev_size = (24, 80), ev_key = k, ev_line = Inr ''''\<rparr>"


section \<open>Truncation as the specification words it\<close>

text \<open>
  The specification asks for truncation to a width that is clamped to be at least 0.
  This definition follows those words; the program's slices are \<open>py_slice_to\<close>.
\<close>

definition truncate_clamped :: "string \<Rightarrow> int \<Rightarrow> string" where
  "truncate_clamped s k = take (nat (max 0 k)) s"

section \<open>Facts about paths\<close>

lemma split_on_no_sep: "c \<notin> set s \<Longrightarrow> split_on c s = [s]"
  by (induction s) auto

lemma parse_parts_valid_name: "valid_name n \<Longrightarrow> parse_parts n = [n]"
  by (simp add: parse_parts_def valid_name_def split_on_no_sep)

lemma parse_anchor_valid_name: "valid_name n \<Longrightarrow> parse_anchor n = ''''"
  by (cases n) (auto simp: parse_anchor_def valid_name_def)

lemma joinpath_valid_name: "valid_name n \<Longrightarrow> joinpath p n = child p n"
  by (simp add: joinpath_def child_def parse_parts_valid_name parse_anchor_valid_name)

lemma parent_child: "parent (child p n) = p"
  by (simp add: parent_def child_def)

lemma name_child: "name (child p n) = n"
  by (simp add: name_def child_def)

section \<open>Cursor movement\<close>

lemma move_key_step:
  assumes "k \<in> {KEY_UP, Ord CHR ''k'', KEY_A2, KEY_DOWN, Ord CHR ''j'', KEY_C2}"
    and "0 \<le> cursor st" and "cursor st < int (length files)"
  shows "\<exists>st'. process_key_press os files k line st = Inr st'
            \<and> 0 \<le> cursor st' \<and> cursor st' < int (length files)
            \<and> current_dir st' = current_dir st \<and> world st' = world st"
  using assms by (auto simp: process_key_press_def)

text \<open>
  C1. Start from a cursor with \<open>0 \<le> cursor < len(entries)\<close> and feed
  \<open>process_key_press\<close> any sequence of move-up keys (Up, \<open>k\<close>, keypad up) and move-down
  keys (Down, \<open>j\<close>, keypad down) against the entry list: no exception is raised, the
  cursor still satisfies \<open>0 \<le> cursor < len(entries)\<close>, and neither the current
  directory nor the file system has changed.
\<close>

theorem cursor_bounds:
  assumes "\<forall>kl \<in> set ks.
             fst kl \<in> {KEY_UP, Ord CHR ''k'', KEY_A2, KEY_DOWN, Ord CHR ''j'', KEY_C2}"
    and "0 \<le> cursor st" and "cursor st < int (length files)"
  shows "\<exists>st'. process_key_presses os files ks st = Inr st'
            \<and> 0 \<le> cursor st' \<and> cursor st' < int (length files)
            \<and> current_dir st' = current_dir st \<and> world st' = world st"
  using assms
proof (induction ks arbitrary: st)
  case Nil
  then show ?case by simp
next
  case (Cons kl ks)
  from Cons.prems obtain st1
    where s1: "process_key_press os files (fst kl) (snd kl) st = Inr st1"
      and b1: "0 \<le> cursor st1" "cursor st1 < int (length files)"
      and f1: "current_dir st1 = current_dir st" "world st1 = world st"
    using move_key_step[of "fst kl" st files os "snd kl"] by auto
  from Cons.IH[OF _ b1] Cons.prems(1) obtain st'
    where "process_key_presses os files ks st1 = Inr st'"
      and "0 \<le> cursor st'" and "cursor st' < int (length files)"
      and "current_dir st' = current_dir st1" and "world st' = world st1"
    by auto
  with s1 f1 show ?case by simp
qed

theorem cursor_bounds_witness:
  "\<exists>st'. process_key_presses mem_os [''a'', ''b'', ''c'']
            [(KEY_DOWN, Inr ''''), (Ord CHR ''j'', Inr ''''), (KEY_C2, Inr ''''),
             (KEY_UP, Inr ''''), (Ord CHR ''k'', Inr ''''), (KEY_A2, Inr ''''),
             (KEY_A2, Inr '''')]
            (App_init (Path ''/'' [''work'']) example_fs) = Inr st'
         \<and> 0 \<le> cursor st' \<and> cursor st' < 3
         \<and> current_dir st' = Path ''/'' [''work''] \<and> world st' = example_fs"
proof -
  let ?ks = "[(KEY_DOWN, Inr ''''), (Ord CHR ''j'', Inr ''''), (KEY_C2, Inr ''''),
             (KEY_UP, Inr ''''), (Ord CHR ''k'', Inr ''''), (KEY_A2, Inr ''''),
             (KEY_A2, Inr '''')] :: (key \<times> (exn + string)) list"
  let ?st = "App_init (Path ''/'' [''work'']) example_fs"
  have h1: "\<forall>kl \<in> set ?ks.
             fst kl \<in> {KEY_UP, Ord CHR ''k'', KEY_A2, KEY_DOWN, Ord CHR ''j'', KEY_C2}"
    by simp
  have h2: "0 \<le> cursor ?st" by (simp add: App_init_def)
  have h3: "cursor ?st < int (length [''a'', ''b'', ''c''])" by (simp add: App_init_def)
  show ?thesis
    using cursor_bounds[OF h1 h2 h3, of mem_os]
    by (simp add: App_init_def joinpath_path_def)
qed

section \<open>The directory listing\<close>

lemma get_sorted_files_loop_filter:
  "get_sorted_files_loop os w cur (map (child cur) names) (ds, fs) =
     (ds @ filter (\<lambda>n. os_is_dir os w (joinpath_path cur (child cur n))) names,
      fs @ filter (\<lambda>n. \<not> os_is_dir os w (joinpath_path cur (child cur n))) names)"
  by (induction names arbitrary: ds fs) (simp_all add: name_child)

lemma joinpath_path_child:
  "anchor cur \<noteq> '''' \<Longrightarrow> joinpath_path cur (child cur n) = child cur n"
  by (simp add: joinpath_path_def child_def)

lemma get_sorted_files_eq:
  assumes "anchor (current_dir st) \<noteq> ''''"
    and "os_listdir os (world st) (current_dir st) = Inr names"
  shows "get_sorted_files os st =
           Inr (sort (filter (\<lambda>n. os_is_dir os (world st) (child (current_dir st) n)) names)
                @ sort (filter (\<lambda>n. \<not> os_is_dir os (world st) (child (current_dir st) n)) names))"
  using assms
  by (simp add: get_sorted_files_def iterdir_def get_sorted_files_loop_filter
      joinpath_path_child)

text \<open>
  C3. When the current directory (an absolute path) lists a set of child names,
  \<open>get_sorted_files\<close> returns the names that are directories, in ascending
  lexicographic order, followed by the names that are not, in ascending lexicographic
  order; the result is as long as the listing and holds no name twice.
\<close>

theorem get_sorted_files_sorted:
  assumes "anchor (current_dir st) \<noteq> ''''"
    and "os_listdir os (world st) (current_dir st) = Inr names"
    and "distinct names"
  shows "\<exists>dirs files. get_sorted_files os st = Inr (dirs @ files)
           \<and> set dirs = {n \<in> set names. os_is_dir os (world st) (child (current_dir st) n)}
           \<and> set files = {n \<in> set names. \<not> os_is_dir os (world st) (child (current_dir st) n)}
           \<and> sorted dirs \<and> sorted files
           \<and> length (dirs @ files) = length names
           \<and> distinct (dirs @ files)"
proof -
  let ?isd = "\<lambda>n. os_is_dir os (world st) (child (current_dir st) n)"
  let ?dirs = "sort (filter ?isd names)"
  let ?files = "sort (filter (\<lambda>n. \<not> ?isd n) names)"
  have eq: "get_sorted_files os st = Inr (?dirs @ ?files)"
    using assms(1,2) by (rule get_sorted_files_eq)
  have len: "length (?dirs @ ?files) = length names"
    by (simp add: sum_length_filter_compl)
  have dist: "distinct (?dirs @ ?files)"
    using assms(3) by (auto simp: distinct_sort)
  have "set ?dirs = {n \<in> set names. ?isd n}" "set ?files = {n \<in> set names. \<not> ?isd n}"
    by auto
  moreover have "sorted ?dirs" "sorted ?files"
    by simp_all
  ultimately show ?thesis
    using eq len dist by blast
qed

theorem get_sorted_files_sorted_witness:
  "\<exists>dirs files.
      get_sorted_files mem_os (App_init (Path ''/'' []) example_fs) = Inr (dirs @ files)
    \<and> set dirs = {''work'', ''empty''}
    \<and> set files = {''notes.txt'', ''Makefile''}
    \<and> sorted dirs \<and> sorted files
    \<and> length (dirs @ files) = length [''notes.txt'', ''work'', ''Makefile'', ''empty'']
    \<and> distinct (dirs @ files)"
proof -
  let ?st = "App_init (Path ''/'' []) example_fs"
  let ?names = "[''notes.txt'', ''work'', ''Makefile'', ''empty'']"
  have h1: "anchor (current_dir ?st) \<noteq> ''''"
    by (simp add: App_init_def joinpath_path_def)
  have h2: "os_listdir mem_os (world ?st) (current_dir ?st) = Inr ?names"
    by (simp add: App_init_def joinpath_path_def mem_os_def mem_listdir_def example_fs_def
        parent_def name_def)
  have h3: "distinct ?names" by simp
  have s1: "{n \<in> set ?names. os_is_dir mem_os (world ?st) (child (current_dir ?st) n)}
              = {''work'', ''empty''}"
    by (auto simp: App_init_def joinpath_path_def mem_os_def mem_is_dir_def example_fs_def
        child_def)
  have s2: "{n \<in> set ?names. \<not> os_is_dir mem_os (world ?st) (child (current_dir ?st) n)}
              = {''notes.txt'', ''Makefile''}"
    by (auto simp: App_init_def joinpath_path_def mem_os_def mem_is_dir_def example_fs_def
        child_def)
  show ?thesis
    using get_sorted_files_sorted[OF h1 h2 h3] unfolding s1 s2 .
qed

section \<open>Navigation\<close>

lemma parent_root: "parts p = [] \<Longrightarrow> parent p = p"
  by (cases p) (simp add: parent_def)

lemma process_key_press_left:
  assumes "k \<in> {KEY_LEFT, KEY_B1, Ord CHR ''h''}"
  shows "process_key_press os files k line st =
           Inr (st\<lparr>current_dir := parent (current_dir st), cursor := 0\<rparr>)"
proof -
  from assms consider "k = KEY_LEFT" | "k = KEY_B1" | "k = Ord CHR ''h''" by blast
  then show ?thesis
    by cases (simp_all add: process_key_press_def)
qed

lemma process_key_press_right:
  assumes "k \<in> {KEY_RIGHT, KEY_B3, Ord CHR ''l''}"
  shows "process_key_press os files k line st = Inr (try_enter_directory os files st)"
proof -
  from assms consider "k = KEY_RIGHT" | "k = KEY_B3" | "k = Ord CHR ''l''" by blast
  then show ?thesis
    by cases (simp_all add: process_key_press_def)
qed

text \<open>
  C7. When \<open>current_dir\<close> is a root path (it has no parts), a go-to-parent key
  (Left, keypad left, \<open>h\<close>) raises nothing, leaves \<open>current_dir\<close> as it is and sets
  the cursor to 0; a second go-to-parent key gives the same state again.
\<close>

theorem parent_of_root_idempotent:
  assumes "parts (current_dir st) = []"
    and "k1 \<in> {KEY_LEFT, KEY_B1, Ord CHR ''h''}"
    and "k2 \<in> {KEY_LEFT, KEY_B1, Ord CHR ''h''}"
  shows "process_key_press os files1 k1 line1 st = Inr (st\<lparr>cursor := 0\<rparr>)
       \<and> process_key_press os files2 k2 line2 (st\<lparr>cursor := 0\<rparr>) = Inr (st\<lparr>cursor := 0\<rparr>)
       \<and> current_dir (st\<lparr>cursor := 0\<rparr>) = current_dir st"
  using assms(1)
  by (simp add: process_key_press_left[OF assms(2)] process_key_press_left[OF assms(3)]
      parent_root)

theorem parent_of_root_idempotent_witness:
  "process_key_press mem_os [''empty'', ''work'', ''Makefile'', ''notes.txt''] KEY_LEFT (Inr '''')
       ((App_init (Path ''/'' []) example_fs)\<lparr>cursor := 3\<rparr>)
     = Inr (App_init (Path ''/'' []) example_fs)
   \<and> process_key_press mem_os [''empty'', ''work'', ''Makefile'', ''notes.txt''] (Ord CHR ''h'')
       (Inr '''') (App_init (Path ''/'' []) example_fs)
     = Inr (App_init (Path ''/'' []) example_fs)"
proof -
  let ?st = "(App_init (Path ''/'' []) example_fs)\<lparr>cursor := 3\<rparr>"
  have h1: "parts (current_dir ?st) = []"
    by (simp add: App_init_def joinpath_path_def)
  have h2: "KEY_LEFT \<in> {KEY_LEFT, KEY_B1, Ord CHR ''h''}" by simp
  have h3: "Ord CHR ''h'' \<in> {KEY_LEFT, KEY_B1, Ord CHR ''h''}" by simp
  have e: "?st\<lparr>cursor := 0\<rparr> = App_init (Path ''/'' []) example_fs"
    by (simp add: App_init_def)
  show ?thesis
    using parent_of_root_idempotent[OF h1 h2 h3, of mem_os
        "[''empty'', ''work'', ''Makefile'', ''notes.txt'']" "Inr ''''"
        "[''empty'', ''work'', ''Makefile'', ''notes.txt'']" "Inr ''''"]
    unfolding e by simp
qed

text \<open>
  C6. When the selected entry is a directory (a name of the listing, for which
  \<open>is_dir\<close> holds), an enter key (Right, keypad right, \<open>l\<close>) followed by a
  go-to-parent key (Left, keypad left, \<open>h\<close>) raises nothing and ends in the original
  \<open>current_dir\<close> with the cursor at 0, whatever the cursor was before.
\<close>

theorem enter_then_parent:
  assumes "py_index files (cursor st) = Inr f"
    and "valid_name f"
    and "os_is_dir os (world st) (joinpath (current_dir st) f)"
    and "k1 \<in> {KEY_RIGHT, KEY_B3, Ord CHR ''l''}"
    and "k2 \<in> {KEY_LEFT, KEY_B1, Ord CHR ''h''}"
  shows "\<exists>st1 st2. process_key_press os files k1 line1 st = Inr st1
           \<and> current_dir st1 = child (current_dir st) f \<and> cursor st1 = 0
           \<and> process_key_press os files2 k2 line2 st1 = Inr st2
           \<and> current_dir st2 = current_dir st \<and> cursor st2 = 0
           \<and> world st2 = world st"
proof -
  let ?st1 = "st\<lparr>current_dir := child (current_dir st) f, cursor := 0\<rparr>"
  have enter: "try_enter_directory os files st = ?st1"
    using assms(1,3) by (simp add: try_enter_directory_def joinpath_valid_name[OF assms(2)])
  have "process_key_press os files k1 line1 st = Inr ?st1"
    by (simp add: process_key_press_right[OF assms(4)] enter)
  moreover have "process_key_press os files2 k2 line2 ?st1 = Inr (st\<lparr>cursor := 0\<rparr>)"
    by (simp add: process_key_press_left[OF assms(5)] parent_child)
  ultimately show ?thesis by simp
qed

theorem enter_then_parent_witness:
  "\<exists>st1 st2. process_key_press mem_os [''empty'', ''work'', ''Makefile'', ''notes.txt'']
                 KEY_RIGHT (Inr '''') ((App_init (Path ''/'' []) example_fs)\<lparr>cursor := 1\<rparr>)
               = Inr st1
           \<and> current_dir st1 = Path ''/'' [''work''] \<and> cursor st1 = 0
           \<and> process_key_press mem_os [''a'', ''b'', ''c''] KEY_LEFT (Inr '''') st1 = Inr st2
           \<and> current_dir st2 = Path ''/'' [] \<and> cursor st2 = 0
           \<and> world st2 = example_fs"
proof -
  let ?st = "(App_init (Path ''/'' []) example_fs)\<lparr>cursor := 1\<rparr>"
  let ?files = "[''empty'', ''work'', ''Makefile'', ''notes.txt'']"
  have h1: "py_index ?files (cursor ?st) = Inr ''work''"
    by (simp add: py_index_def)
  have h2: "valid_name ''work''"
    by (simp add: valid_name_def)
  have h3: "os_is_dir mem_os (world ?st) (joinpath (current_dir ?st) ''work'')"
    by (simp add: joinpath_valid_name[OF h2] App_init_def joinpath_path_def child_def
        mem_os_def mem_is_dir_def example_fs_def)
  have h4: "KEY_RIGHT \<in> {KEY_RIGHT, KEY_B3, Ord CHR ''l''}" by simp
  have h5: "KEY_LEFT \<in> {KEY_LEFT, KEY_B1, Ord CHR ''h''}" by simp
  show ?thesis
    using enter_then_parent[OF h1 h2 h3 h4 h5, of "Inr ''''" "[''a'', ''b'', ''c'']" "Inr ''''"]
    by (simp add: App_init_def joinpath_path_def child_def)
qed

section \<open>Keys without a binding\<close>

text \<open>
  C9. A key that is none of the bound keys (Up, \<open>k\<close>, keypad up; Down, \<open>j\<close>, keypad
  down; Left, keypad left, \<open>h\<close>; Right, keypad right, \<open>l\<close>; \<open>x\<close>; \<open>a\<close>; F7) makes
  \<open>process_key_press\<close> return the state it was given: \<open>current_dir\<close>, cursor, screen and
  file system are the same, for every behaviour of the file-system calls, so none of them
  has acted. This includes \<open>q\<close>, which only \<open>run\<close> looks at.
\<close>

theorem unbound_key_noop:
  assumes "k \<notin> {KEY_UP, Ord CHR ''k'', KEY_A2, KEY_DOWN, Ord CHR ''j'', KEY_C2,
                KEY_LEFT, KEY_B1, Ord CHR ''h'', KEY_RIGHT, KEY_B3, Ord CHR ''l'',
                Ord CHR ''x'', Ord CHR ''a'', KEY_F7}"
  shows "process_key_press os files k line st = Inr st"
  using assms by (simp add: process_key_press_def)

theorem unbound_key_noop_witness:
  "process_key_press mem_os [''a'', ''b'', ''c''] (Ord CHR ''z'') (Inr ''new'')
      (App_init (Path ''/'' [''work'']) example_fs)
     = Inr (App_init (Path ''/'' [''work'']) example_fs)
   \<and> process_key_press mem_os [''a'', ''b'', ''c''] (KEY_OTHER 410) (Inr ''new'')
      (App_init (Path ''/'' [''work'']) example_fs)
     = Inr (App_init (Path ''/'' [''work'']) example_fs)"
proof -
  have h1: "Ord CHR ''z'' \<notin> {KEY_UP, Ord CHR ''k'', KEY_A2, KEY_DOWN, Ord CHR ''j'', KEY_C2,
                KEY_LEFT, KEY_B1, Ord CHR ''h'', KEY_RIGHT, KEY_B3, Ord CHR ''l'',
                Ord CHR ''x'', Ord CHR ''a'', KEY_F7}" by simp
  have h2: "KEY_OTHER 410 \<notin> {KEY_UP, Ord CHR ''k'', KEY_A2, KEY_DOWN, Ord CHR ''j'', KEY_C2,
                KEY_LEFT, KEY_B1, Ord CHR ''h'', KEY_RIGHT, KEY_B3, Ord CHR ''l'',
                Ord CHR ''x'', Ord CHR ''a'', KEY_F7}" by simp
  show ?thesis
    using unbound_key_noop[OF h1, of mem_os "[''a'', ''b'', ''c'']" "Inr ''new''"
        "App_init (Path ''/'' [''work'']) example_fs"]
      unbound_key_noop[OF h2, of mem_os "[''a'', ''b'', ''c'']" "Inr ''new''"
        "App_init (Path ''/'' [''work'']) example_fs"]
    by simp
qed

section \<open>File-system mutations\<close>

lemma ask_user_input_Inr:
  "\<exists>st1. ask_user_input prompt (Inr s) st = Inr (s, st1)
         \<and> current_dir st1 = current_dir st \<and> cursor st1 = cursor st
         \<and> world st1 = world st"
  by (simp add: ask_user_input_def addstr_def)

lemma try_remove_file_fails:
  assumes "\<forall>f. py_index files (cursor st) = Inr f \<longrightarrow>
             isl (os_remove os (world st) (joinpath (current_dir st) f))"
  shows "try_remove_file os files st = st"
  using assms by (auto simp: try_remove_file_def split: sum.splits)

lemma try_rename_file_fails:
  assumes "\<forall>f. py_index files (cursor st) = Inr f \<longrightarrow>
             isl (os_rename os (world st) (joinpath (current_dir st) f)
                    (joinpath (current_dir st) new_name))"
  shows "\<exists>st'. try_rename_file os files (Inr new_name) st = Inr st'
           \<and> current_dir st' = current_dir st \<and> cursor st' = cursor st
           \<and> world st' = world st"
proof -
  obtain st1 where a: "ask_user_input ''Enter new name: '' (Inr new_name) st = Inr (new_name, st1)"
    and f: "current_dir st1 = current_dir st" "cursor st1 = cursor st" "world st1 = world st"
    using ask_user_input_Inr by blast
  show ?thesis
    using assms by (auto simp: try_rename_file_def a f split: sum.splits)
qed

lemma try_create_directory_fails:
  assumes "isl (os_mkdir os (world st) (joinpath (current_dir st) new_dir))"
  shows "\<exists>st'. try_create_directory os (Inr new_dir) st = Inr st'
           \<and> current_dir st' = current_dir st \<and> cursor st' = cursor st
           \<and> world st' = world st"
proof -
  obtain st1 where a: "ask_user_input ''Enter directory name: '' (Inr new_dir) st = Inr (new_dir, st1)"
    and f: "current_dir st1 = current_dir st" "cursor st1 = cursor st" "world st1 = world st"
    using ask_user_input_Inr by blast
  show ?thesis
    using assms by (auto simp: try_create_directory_def a f split: sum.splits)
qed

text \<open>
  C8. When the file-system call of a mutation fails, \<open>process_key_press\<close> raises nothing
  and leaves \<open>current_dir\<close>, the cursor and the file system as they were. For delete
  (\<open>x\<close>) a failure is a missing selection or a failing \<open>os.remove\<close>, and the whole state
  is unchanged; for rename (\<open>a\<close>) it is a missing selection or a failing \<open>os.rename\<close>;
  for create directory (F7) it is a failing \<open>os.mkdir\<close>. The last two have prompted for
  a line, which was read.
\<close>

theorem mutation_failure_swallowed:
  "((\<forall>f. py_index files (cursor st) = Inr f \<longrightarrow>
        isl (os_remove os (world st) (joinpath (current_dir st) f)))
      \<longrightarrow> process_key_press os files (Ord CHR ''x'') line st = Inr st)
   \<and> ((\<forall>f. py_index files (cursor st) = Inr f \<longrightarrow>
        isl (os_rename os (world st) (joinpath (current_dir st) f)
               (joinpath (current_dir st) new_name)))
      \<longrightarrow> (\<exists>st'. process_key_press os files (Ord CHR ''a'') (Inr new_name) st = Inr st'
             \<and> current_dir st' = current_dir st \<and> cursor st' = cursor st
             \<and> world st' = world st))
   \<and> (isl (os_mkdir os (world st) (joinpath (current_dir st) new_name))
      \<longrightarrow> (\<exists>st'. process_key_press os files KEY_F7 (Inr new_name) st = Inr st'
             \<and> current_dir st' = current_dir st \<and> cursor st' = cursor st
             \<and> world st' = world st))"
proof (intro conjI impI)
  assume "\<forall>f. py_index files (cursor st) = Inr f \<longrightarrow>
        isl (os_remove os (world st) (joinpath (current_dir st) f))"
  then show "process_key_press os files (Ord CHR ''x'') line st = Inr st"
    by (simp add: process_key_press_def try_remove_file_fails)
next
  assume "\<forall>f. py_index files (cursor st) = Inr f \<longrightarrow>
        isl (os_rename os (world st) (joinpath (current_dir st) f)
               (joinpath (current_dir st) new_name))"
  from try_rename_file_fails[OF this]
  show "\<exists>st'. process_key_press os files (Ord CHR ''a'') (Inr new_name) st = Inr st'
             \<and> current_dir st' = current_dir st \<and> cursor st' = cursor st
             \<and> world st' = world st"
    by (simp add: process_key_press_def)
next
  assume "isl (os_mkdir os (world st) (joinpath (current_dir st) new_name))"
  from try_create_directory_fails[OF this]
  show "\<exists>st'. process_key_press os files KEY_F7 (Inr new_name) st = Inr st'
             \<and> current_dir st' = current_dir st \<and> cursor st' = cursor st
             \<and> world st' = world st"
    by (simp add: process_key_press_def)
qed

lemma example_rename_collision:
  "mem_rename example_fs (Path ''/'' [''work'', ''a'']) (Path ''/'' [''work'', ''b''])
     = Inl (OSError ''File exists'')"
  by (simp add: mem_rename_def example_fs_def)

lemma example_remove_missing:
  "mem_remove example_fs (Path ''/'' [''work'', ''gone'']) = Inl (OSError ''No such file or directory'')"
  by (simp add: mem_remove_def example_fs_def)

lemma example_mkdir_exists:
  "mem_mkdir example_fs (Path ''/'' [''work'', ''b'']) = Inl (OSError ''File exists'')"
  by (simp add: mem_mkdir_def example_fs_def)

theorem mutation_failure_swallowed_witness:
  "process_key_press mem_os [''gone''] (Ord CHR ''x'') (Inr ''b'')
       (App_init (Path ''/'' [''work'']) example_fs)
     = Inr (App_init (Path ''/'' [''work'']) example_fs)
   \<and> (\<exists>st'. process_key_press mem_os [''a'', ''b'', ''c''] (Ord CHR ''a'') (Inr ''b'')
               (App_init (Path ''/'' [''work'']) example_fs) = Inr st'
             \<and> current_dir st' = Path ''/'' [''work''] \<and> cursor st' = 0
             \<and> world st' = example_fs)
   \<and> (\<exists>st'. process_key_press mem_os [''a'', ''b'', ''c''] KEY_F7 (Inr ''b'')
               (App_init (Path ''/'' [''work'']) example_fs) = Inr st'
             \<and> current_dir st' = Path ''/'' [''work''] \<and> cursor st' = 0
             \<and> world st' = example_fs)"
proof -
  let ?st = "App_init (Path ''/'' [''work'']) example_fs"
  have st: "current_dir ?st = Path ''/'' [''work'']" "cursor ?st = 0" "world ?st = example_fs"
    by (simp_all add: App_init_def joinpath_path_def)
  have b: "joinpath (Path ''/'' [''work'']) ''b'' = Path ''/'' [''work'', ''b'']"
    and a: "joinpath (Path ''/'' [''work'']) ''a'' = Path ''/'' [''work'', ''a'']"
    and g: "joinpath (Path ''/'' [''work'']) ''gone'' = Path ''/'' [''work'', ''gone'']"
    by (simp_all add: joinpath_valid_name valid_name_def child_def)
  have h1: "\<forall>f. py_index [''gone''] (cursor ?st) = Inr f \<longrightarrow>
        isl (os_remove mem_os (world ?st) (joinpath (current_dir ?st) f))"
    by (simp add: st py_index_def g mem_os_def example_remove_missing)
  have h2: "\<forall>f. py_index [''a'', ''b'', ''c''] (cursor ?st) = Inr f \<longrightarrow>
        isl (os_rename mem_os (world ?st) (joinpath (current_dir ?st) f)
               (joinpath (current_dir ?st) ''b''))"
    by (simp add: st py_index_def a b mem_os_def example_rename_collision)
  have h3: "isl (os_mkdir mem_os (world ?st) (joinpath (current_dir ?st) ''b''))"
    by (simp add: st b mem_os_def example_mkdir_exists)
  from mutation_failure_swallowed[of "[''gone'']" ?st mem_os "Inr ''b''" "''b''"] h1
  have c1: "process_key_press mem_os [''gone''] (Ord CHR ''x'') (Inr ''b'') ?st = Inr ?st"
    by blast
  from mutation_failure_swallowed[of "[''a'', ''b'', ''c'']" ?st mem_os "Inr ''b''" "''b''"] h2 h3
  have c2: "\<exists>st'. process_key_press mem_os [''a'', ''b'', ''c''] (Ord CHR ''a'') (Inr ''b'') ?st
                 = Inr st'
             \<and> current_dir st' = current_dir ?st \<and> cursor st' = cursor ?st
             \<and> world st' = world ?st"
    and c3: "\<exists>st'. process_key_press mem_os [''a'', ''b'', ''c''] KEY_F7 (Inr ''b'') ?st = Inr st'
             \<and> current_dir st' = current_dir ?st \<and> cursor st' = cursor ?st
             \<and> world st' = world ?st"
    by blast+
  show ?thesis
    using c1 c2 c3 unfolding st by blast
qed









section \<open>Truncation\<close>

lemma py_slice_to_take: "\<exists>n. py_slice_to s k = take n s"
  by (auto simp: py_slice_to_def)

lemma py_slice_to_nonneg: "0 \<le> k \<Longrightarrow> py_slice_to s k = take (nat k) s"
  by (simp add: py_slice_to_def)

lemma refresh_screen_fields:
  "screen_height (refresh_screen (h, w) st) = h"
  "screen_width (refresh_screen (h, w) st) = w"
  "col_width (refresh_screen (h, w) st) = w div 2"
  "current_dir (refresh_screen (h, w) st) = current_dir st"
  by (simp_all add: refresh_screen_def draw_current_directory_def draw_border_def addstr_def
      Let_def)

lemma refresh_screen_screen:
  "screen (refresh_screen (h, w) st) =
     screen st @ [Clear, Vline 2 (w div 2) ''|'' h, Hline 1 0 ''-'' w,
                  Addstr 0 0 (py_slice_to (str_path (current_dir st)) (w div 2))]"
  by (simp add: refresh_screen_def draw_current_directory_def draw_border_def addstr_def
      Let_def)

lemma draw_left_screen:
  "\<exists>a b. screen (draw_left text ypos sel isd st) =
     screen st @ [Attrset a b]
       @ (if ypos + 2 < screen_height st
          then [Addstr (ypos + 2) 0 (py_slice_to text (col_width st - 1))] else [])
       @ [Attrset 1 False]"
  by (auto simp: draw_left_def attrset_def addstr_def Let_def)

lemma draw_right_screen:
  "screen (draw_right line i st) =
     screen st
       @ (if 0 \<le> i + 2 \<and> i + 2 < screen_height st
          then [Addstr (i + 2) (col_width st + 1)
                  (py_slice_to (expand_tabs line) (col_width st - 2))] else [])"
  by (simp add: draw_right_def addstr_def Let_def)

text \<open>
  C5, as the code has it. For every terminal width \<open>w \<ge> 0\<close> and every string, what a
  render function draws is a prefix of the string it was given (with tabs expanded, in
  the right pane): no slice fails or reaches beyond the end of the string. The widths
  are not clamped. The path header is cut to \<open>col_width = w div 2\<close> characters, which
  is never negative; a left-pane entry is cut to \<open>col_width - 1\<close> characters when
  \<open>w \<ge> 2\<close>, and a preview line to \<open>col_width - 2\<close> characters when \<open>w \<ge> 4\<close>.
\<close>

theorem truncation_safe:
  assumes "0 \<le> w"
  shows "(\<exists>t. screen (refresh_screen (h, w) st) =
              screen st @ [Clear, Vline 2 (w div 2) ''|'' h, Hline 1 0 ''-'' w, Addstr 0 0 t]
            \<and> t = take (nat (w div 2)) (str_path (current_dir st)))
       \<and> (\<exists>a b t n. screen (draw_left text ypos sel isd (refresh_screen (h, w) st)) =
              screen (refresh_screen (h, w) st) @ [Attrset a b]
                @ (if ypos + 2 < h then [Addstr (ypos + 2) 0 t] else [])
                @ [Attrset 1 False]
            \<and> t = take n text
            \<and> (2 \<le> w \<longrightarrow> t = take (nat (w div 2 - 1)) text))
       \<and> (\<exists>t n. screen (draw_right line i (refresh_screen (h, w) st)) =
              screen (refresh_screen (h, w) st)
                @ (if 0 \<le> i + 2 \<and> i + 2 < h then [Addstr (i + 2) (w div 2 + 1) t] else [])
            \<and> t = take n (expand_tabs line)
            \<and> (4 \<le> w \<longrightarrow> t = take (nat (w div 2 - 2)) (expand_tabs line)))"
proof (intro conjI)
  from assms have "0 \<le> w div 2" by simp
  then show "\<exists>t. screen (refresh_screen (h, w) st) =
              screen st @ [Clear, Vline 2 (w div 2) ''|'' h, Hline 1 0 ''-'' w, Addstr 0 0 t]
            \<and> t = take (nat (w div 2)) (str_path (current_dir st))"
    by (simp add: refresh_screen_screen py_slice_to_nonneg)
next
  let ?st1 = "refresh_screen (h, w) st"
  let ?t = "py_slice_to text (w div 2 - 1)"
  obtain a b where "screen (draw_left text ypos sel isd ?st1) =
     screen ?st1 @ [Attrset a b]
       @ (if ypos + 2 < h then [Addstr (ypos + 2) 0 ?t] else [])
       @ [Attrset 1 False]"
    using draw_left_screen[of "text" ypos sel isd ?st1] by (auto simp: refresh_screen_fields)
  moreover obtain n where "?t = take n text"
    using py_slice_to_take by blast
  moreover have "2 \<le> w \<longrightarrow> ?t = take (nat (w div 2 - 1)) text"
  proof
    assume "2 \<le> w"
    then have "0 \<le> w div 2 - 1" by presburger
    then show "?t = take (nat (w div 2 - 1)) text" by (rule py_slice_to_nonneg)
  qed
  ultimately show "\<exists>a b t n. screen (draw_left text ypos sel isd ?st1) =
              screen ?st1 @ [Attrset a b]
                @ (if ypos + 2 < h then [Addstr (ypos + 2) 0 t] else [])
                @ [Attrset 1 False]
            \<and> t = take n text
            \<and> (2 \<le> w \<longrightarrow> t = take (nat (w div 2 - 1)) text)"
    by blast
next
  let ?st1 = "refresh_screen (h, w) st"
  let ?t = "py_slice_to (expand_tabs line) (w div 2 - 2)"
  have "screen (draw_right line i ?st1) =
     screen ?st1 @ (if 0 \<le> i + 2 \<and> i + 2 < h then [Addstr (i + 2) (w div 2 + 1) ?t] else [])"
    by (simp add: draw_right_screen refresh_screen_fields)
  moreover obtain n where "?t = take n (expand_tabs line)"
    using py_slice_to_take by blast
  moreover have "4 \<le> w \<longrightarrow> ?t = take (nat (w div 2 - 2)) (expand_tabs line)"
  proof
    assume "4 \<le> w"
    then have "0 \<le> w div 2 - 2" by presburger
    then show "?t = take (nat (w div 2 - 2)) (expand_tabs line)" by (rule py_slice_to_nonneg)
  qed
  ultimately show "\<exists>t n. screen (draw_right line i ?st1) =
              screen ?st1
                @ (if 0 \<le> i + 2 \<and> i + 2 < h then [Addstr (i + 2) (w div 2 + 1) t] else [])
            \<and> t = take n (expand_tabs line)
            \<and> (4 \<le> w \<longrightarrow> t = take (nat (w div 2 - 2)) (expand_tabs line))"
    by blast
qed

theorem truncation_safe_witness:
  "screen (refresh_screen (24, 10) (App_init (Path ''/'' [''work'']) ())) =
     [Clear, Vline 2 5 ''|'' 24, Hline 1 0 ''-'' 10, Addstr 0 0 ''/work'']
   \<and> (\<exists>a b. screen (draw_left ''notes.txt'' 0 True False
                  (refresh_screen (24, 10) (App_init (Path ''/'' [''work'']) ()))) =
          screen (refresh_screen (24, 10) (App_init (Path ''/'' [''work'']) ()))
            @ [Attrset a b, Addstr 2 0 ''note'', Attrset 1 False])
   \<and> screen (draw_right (''one'' @ [CHR 0x09] @ ''two'') 0
                  (refresh_screen (24, 10) (App_init (Path ''/'' [''work'']) ()))) =
          screen (refresh_screen (24, 10) (App_init (Path ''/'' [''work'']) ()))
            @ [Addstr 2 6 ''one'']"
proof -
  let ?st = "App_init (Path ''/'' [''work'']) ()"
  have h: "(0::int) \<le> 10" by simp
  have p: "str_path (current_dir ?st) = ''/work''" "screen ?st = []"
    by (simp_all add: App_init_def joinpath_path_def str_path_def)
  have e: "expand_tabs (''one'' @ [CHR 0x09] @ ''two'') = ''one    two''"
    by (simp add: expand_tabs_def)
  show ?thesis
    using truncation_safe[OF h, of 24 ?st "''notes.txt''" 0 True False
        "''one'' @ [CHR 0x09] @ ''two''" 0]
    unfolding p e by auto
qed

text \<open>
  C5, as the specification words it, fails. On a terminal one column wide
  \<open>col_width\<close> is 0, the stop of the left-pane slice is \<open>-1\<close>, and \<open>_draw_left\<close> draws
  \<open>ab\<close> for the entry \<open>abc\<close>, where a width clamped to 0 draws nothing.
\<close>

theorem truncation_clamped_counterexample:
  "col_width (refresh_screen (24, 1) (App_init (Path ''/'' [''work'']) ())) - 1 = - 1
   \<and> screen (draw_left ''abc'' 0 True False
               (refresh_screen (24, 1) (App_init (Path ''/'' [''work'']) ()))) =
       [Clear, Vline 2 0 ''|'' 24, Hline 1 0 ''-'' 1, Addstr 0 0 [],
        Attrset 2 False, Addstr 2 0 ''ab'', Attrset 1 False]
   \<and> truncate_clamped ''abc''
         (col_width (refresh_screen (24, 1) (App_init (Path ''/'' [''work'']) ())) - 1) = []"
  by (simp add: refresh_screen_def draw_current_directory_def draw_border_def addstr_def
      attrset_def draw_left_def App_init_def joinpath_path_def str_path_def py_slice_to_def
      truncate_clamped_def Let_def)

section \<open>The cursor against a shorter entry list\<close>

lemma show_selected_empty:
  "show_selected_file_or_folder_contents os [] st = Inl IndexError"
  by (auto simp: show_selected_file_or_folder_contents_def py_index_def)

lemma show_selected_out_of_range:
  "int (length files) \<le> cursor st \<Longrightarrow>
     show_selected_file_or_folder_contents os files st = Inl IndexError"
  by (simp add: show_selected_file_or_folder_contents_def py_index_def)

lemma move_key_empty_noop:
  assumes "k \<in> {KEY_UP, Ord CHR ''k'', KEY_A2, KEY_DOWN, Ord CHR ''j'', KEY_C2}"
    and "cursor st = 0"
  shows "process_key_press os [] k line st = Inr st"
  using assms by (auto simp: process_key_press_def)

lemma try_remove_file_cursor: "cursor (try_remove_file os files st) = cursor st"
  by (simp add: try_remove_file_def split: sum.splits)

text \<open>
  C2 at its failing input. The program started in the empty directory \<open>/empty\<close>, or
  entering it from the root with Right: the entry list is empty, the render of that
  cycle reaches \<open>files[self.cursor]\<close> and \<open>IndexError\<close> leaves \<open>run\<close>.
\<close>

theorem empty_directory_render_raises:
  "get_sorted_files mem_os (App_init (Path ''/'' [''empty'']) example_fs) = Inr []
   \<and> run mem_os [key_event KEY_DOWN] (App_init (Path ''/'' [''empty'']) example_fs)
       = Inl IndexError
   \<and> run mem_os [key_event KEY_RIGHT, key_event KEY_DOWN]
         (App_init (Path ''/'' []) example_fs)
       = Inl IndexError"
  by code_simp

text \<open>
  C4 at its failing input. In \<open>/work\<close> the entries are \<open>a\<close>, \<open>b\<close>, \<open>c\<close>; two Down keys
  put the cursor on \<open>c\<close> and \<open>x\<close> deletes it. The cursor is still 2, the next listing is
  \<open>a\<close>, \<open>b\<close>, and the render of the next cycle raises \<open>IndexError\<close>.
\<close>

theorem delete_leaves_cursor_unclamped:
  "(case run mem_os [key_event KEY_DOWN, key_event KEY_DOWN, key_event (Ord CHR ''x'')]
           (App_init (Path ''/'' [''work'']) example_fs) of
      Inl e \<Rightarrow> False
    | Inr st \<Rightarrow> cursor st = 2 \<and> get_sorted_files mem_os st = Inr [''a'', ''b''])
   \<and> run mem_os [key_event KEY_DOWN, key_event KEY_DOWN, key_event (Ord CHR ''x''),
                 key_event KEY_UP]
         (App_init (Path ''/'' [''work'']) example_fs)
       = Inl IndexError"
  by code_simp

end
